theory Spec2Isabelle
  imports Main
begin

section \<open>Python values\<close>

text \<open>
  A Python \<open>str\<close> is a sequence of Unicode code points, so it is modelled as a list of
  natural numbers; \<open>py\<close> turns a literal of the theory into such a string.
\<close>

type_synonym pystr = "nat list"

definition py :: "string \<Rightarrow> pystr" where
  "py s = map of_char s"

text \<open>
  The values that \<open>json.loads\<close> produces and that the functions of \<open>app.py\<close> pass around:
  \<open>None\<close>, booleans, integers, floats, strings, lists and dicts. A float is carried as the
  text of its literal (floating-point arithmetic is not modelled). A dict is an association
  list in insertion order with unique keys, as Python's \<open>dict\<close> is.
\<close>

datatype pyval =
    PNone
  | PBool bool
  | PInt int
  | PFloat pystr
  | PStr pystr
  | PList "pyval list"
  | PDict "(pystr \<times> pyval) list"

text \<open>\<open>d[k] = v\<close>: an existing key keeps its position and gets the new value.\<close>

fun dict_set :: "(pystr \<times> 'v) list \<Rightarrow> pystr \<Rightarrow> 'v \<Rightarrow> (pystr \<times> 'v) list" where
  "dict_set [] k v = [(k, v)]"
| "dict_set ((k', v') # d) k v = (if k' = k then (k, v) # d else (k', v') # dict_set d k v)"

text \<open>\<open>d.get(k, default)\<close>.\<close>

definition dict_get :: "(pystr \<times> 'v) list \<Rightarrow> pystr \<Rightarrow> 'v \<Rightarrow> 'v" where
  "dict_get d k dflt = (case map_of d k of None \<Rightarrow> dflt | Some v \<Rightarrow> v)"

text \<open>\<open>str(n)\<close> for an integer: decimal digits, with a minus sign for negative numbers.\<close>

function str_nat :: "nat \<Rightarrow> pystr" where
  "str_nat n = (if n < 10 then [48 + n] else str_nat (n div 10) @ [48 + n mod 10])"
  by pat_completeness auto
termination
  by (relation "measure id") auto

declare str_nat.simps [simp del]

definition str_int :: "int \<Rightarrow> pystr" where
  "str_int i = (if i < 0 then of_char CHR ''-'' # str_nat (nat (- i)) else str_nat (nat i))"

text \<open>\<open>sep.join(xs)\<close>.\<close>

fun join :: "pystr \<Rightarrow> pystr list \<Rightarrow> pystr" where
  "join sep [] = []"
| "join sep [x] = x"
| "join sep (x # y # ys) = x @ sep @ join sep (y # ys)"


section \<open>The JSON decoder\<close>

text \<open>
  \<open>json.loads\<close> of the standard library, as \<open>generate_quiz_questions\<close> calls it (default
  arguments, so \<open>strict\<close> mode and the constants \<open>NaN\<close>, \<open>Infinity\<close>, \<open>-Infinity\<close>
  accepted). The text is cut into tokens and the tokens are read by a push-down automaton;
  \<open>None\<close> stands for the \<open>JSONDecodeError\<close> that the decoder raises. The interpreter's
  limits on recursion depth and on the number of digits of an integer are not modelled.
\<close>

definition is_ws :: "nat \<Rightarrow> bool" where
  "is_ws c = (c = 32 \<or> c = 9 \<or> c = 10 \<or> c = 13)"

definition is_digit :: "nat \<Rightarrow> bool" where
  "is_digit c = (48 \<le> c \<and> c \<le> 57)"

definition hex_value :: "nat \<Rightarrow> nat option" where
  "hex_value c =
     (if 48 \<le> c \<and> c \<le> 57 then Some (c - 48)
      else if 97 \<le> c \<and> c \<le> 102 then Some (c - 87)
      else if 65 \<le> c \<and> c \<le> 70 then Some (c - 55)
      else None)"

text \<open>The four hexadecimal digits of a \<open>\uXXXX\<close> escape.\<close>

definition hex4 :: "pystr \<Rightarrow> nat option" where
  "hex4 s =
     (case map hex_value (take 4 s) of
        [Some a, Some b, Some c, Some d] \<Rightarrow> Some (((a * 16 + b) * 16 + c) * 16 + d)
      | _ \<Rightarrow> None)"

text \<open>The character after a backslash: \<open>" \ / b f n r t\<close>.\<close>

definition unescape :: "nat \<Rightarrow> nat option" where
  "unescape e =
     (if e = 34 then Some 34
      else if e = 92 then Some 92
      else if e = 47 then Some 47
      else if e = 98 then Some 8
      else if e = 102 then Some 12
      else if e = 110 then Some 10
      else if e = 114 then Some 13
      else if e = 116 then Some 9
      else None)"

text \<open>
  After a high surrogate \<open>u\<close>, whose four digits are the first four characters of \<open>t\<close>:
  the low surrogate of a following \<open>\uXXXX\<close> escape, if there is one.
\<close>

definition low_surrogate :: "nat \<Rightarrow> pystr \<Rightarrow> nat option" where
  "low_surrogate u t =
     (if 0xD800 \<le> u \<and> u \<le> 0xDBFF \<and> take 2 (drop 4 t) = [92, 117] then
        (case hex4 (drop 6 t) of
           None \<Rightarrow> None
         | Some u2 \<Rightarrow> if 0xDC00 \<le> u2 \<and> u2 \<le> 0xDFFF then Some u2 else None)
      else None)"

definition emit :: "nat \<Rightarrow> nat \<Rightarrow> (pystr \<times> nat) option \<Rightarrow> (pystr \<times> nat) option" where
  "emit x n r = (case r of None \<Rightarrow> None | Some (str, k) \<Rightarrow> Some (x # str, n + k))"

text \<open>
  The body of a string literal, after its opening quote: the decoded string and the number
  of characters read, closing quote included. A control character, an unknown escape and
  a missing closing quote are errors.
\<close>

fun scanstring :: "pystr \<Rightarrow> (pystr \<times> nat) option" where
  "scanstring [] = None"
| "scanstring (c # s) =
     (if c = 34 then Some ([], 1)
      else if c = 92 then
        (case s of
           [] \<Rightarrow> None
         | e # t \<Rightarrow>
             if e = 117 then
               (case hex4 t of
                  None \<Rightarrow> None
                | Some u \<Rightarrow>
                    (case low_surrogate u t of
                       Some u2 \<Rightarrow>
                         emit (0x10000 + (u - 0xD800) * 1024 + (u2 - 0xDC00)) 12
                           (scanstring (drop 10 t))
                     | None \<Rightarrow> emit u 6 (scanstring (drop 4 t))))
             else
               (case unescape e of
                  None \<Rightarrow> None
                | Some x \<Rightarrow> emit x 2 (scanstring t)))
      else if c < 32 then None
      else emit c 1 (scanstring s))"

text \<open>The value of a sequence of decimal digits.\<close>

definition digits_value :: "pystr \<Rightarrow> nat" where
  "digits_value ds = foldl (\<lambda>acc d. acc * 10 + (d - 48)) 0 ds"

text \<open>
  The number at the start of the text, \<open>-?(0|[1-9][0-9]*)(\.[0-9]+)?([eE][-+]?[0-9]+)?\<close>,
  and its length: an integer, or a float when it has a fraction or an exponent.
\<close>

definition match_number :: "pystr \<Rightarrow> (pyval \<times> nat) option" where
  "match_number s =
     (let neg = (take 1 s = [45]);
          s1 = (if neg then drop 1 s else s)
      in case s1 of
           [] \<Rightarrow> None
         | d # r \<Rightarrow>
             if \<not> is_digit d then None
             else
               let idigits = (if d = 48 then [d] else d # takeWhile is_digit r);
                   s2 = drop (length idigits) s1;
                   frac = (case s2 of
                             [] \<Rightarrow> []
                           | p # f \<Rightarrow>
                               if p = 46 \<and> takeWhile is_digit f \<noteq> []
                               then p # takeWhile is_digit f else []);
                   s3 = drop (length frac) s2;
                   ex = (case s3 of
                           [] \<Rightarrow> []
                         | e # x \<Rightarrow>
                             if e = 101 \<or> e = 69 then
                               let sg = (if take 1 x = [43] \<or> take 1 x = [45] then take 1 x else []);
                                   ed = takeWhile is_digit (drop (length sg) x)
                               in if ed = [] then [] else e # sg @ ed
                             else []);
                   n = (if neg then 1 else 0) + length idigits + length frac + length ex
               in if frac = [] \<and> ex = []
                  then Some (PInt (if neg then - int (digits_value idigits)
                                   else int (digits_value idigits)), n)
                  else Some (PFloat (take n s), n))"

datatype token =
    TLBracket | TRBracket | TLBrace | TRBrace | TColon | TComma
  | TScalar pyval

definition push :: "token \<Rightarrow> token list option \<Rightarrow> token list option" where
  "push t r = (case r of None \<Rightarrow> None | Some ts \<Rightarrow> Some (t # ts))"

fun tokenize :: "pystr \<Rightarrow> token list option" where
  "tokenize [] = Some []"
| "tokenize (c # s) =
     (if is_ws c then tokenize s
      else if c = 91 then push TLBracket (tokenize s)
      else if c = 93 then push TRBracket (tokenize s)
      else if c = 123 then push TLBrace (tokenize s)
      else if c = 125 then push TRBrace (tokenize s)
      else if c = 58 then push TColon (tokenize s)
      else if c = 44 then push TComma (tokenize s)
      else if c = 34 then
        (case scanstring s of
           None \<Rightarrow> None
         | Some (str, k) \<Rightarrow> push (TScalar (PStr str)) (tokenize (drop k s)))
      else if take 4 (c # s) = py ''null'' then push (TScalar PNone) (tokenize (drop 3 s))
      else if take 4 (c # s) = py ''true'' then push (TScalar (PBool True)) (tokenize (drop 3 s))
      else if take 5 (c # s) = py ''false'' then push (TScalar (PBool False)) (tokenize (drop 4 s))
      else if take 3 (c # s) = py ''NaN'' then push (TScalar (PFloat (py ''NaN''))) (tokenize (drop 2 s))
      else if take 8 (c # s) = py ''Infinity''
        then push (TScalar (PFloat (py ''Infinity''))) (tokenize (drop 7 s))
      else if take 9 (c # s) = py ''-Infinity''
        then push (TScalar (PFloat (py ''-Infinity''))) (tokenize (drop 8 s))
      else
        (case match_number (c # s) of
           None \<Rightarrow> None
         | Some (v, n) \<Rightarrow> push (TScalar v) (tokenize (drop (n - 1) s))))"

text \<open>
  The automaton: a stack of the containers that are open (a list with its items so far, a
  dict with its entries so far, a dict whose next value belongs to a pending key) and what
  is expected next.
\<close>

datatype frame =
    FList "pyval list"
  | FDict "(pystr \<times> pyval) list"
  | FPair "(pystr \<times> pyval) list" pystr

datatype expect =
    Value | FirstItem | FirstKey | Key | Colon pystr | After | Done pyval

fun close_value :: "pyval \<Rightarrow> frame list \<Rightarrow> (expect \<times> frame list) option" where
  "close_value v [] = Some (Done v, [])"
| "close_value v (FList items # st) = Some (After, FList (items @ [v]) # st)"
| "close_value v (FPair es k # st) = Some (After, FDict (dict_set es k v) # st)"
| "close_value v (FDict es # st) = None"

fun begin_value :: "token \<Rightarrow> frame list \<Rightarrow> (expect \<times> frame list) option" where
  "begin_value (TScalar v) st = close_value v st"
| "begin_value TLBracket st = Some (FirstItem, FList [] # st)"
| "begin_value TLBrace st = Some (FirstKey, FDict [] # st)"
| "begin_value _ st = None"

definition read_key :: "token \<Rightarrow> frame list \<Rightarrow> (expect \<times> frame list) option" where
  "read_key t st = (case t of TScalar (PStr k) \<Rightarrow> Some (Colon k, st) | _ \<Rightarrow> None)"

definition step :: "expect \<Rightarrow> frame list \<Rightarrow> token \<Rightarrow> (expect \<times> frame list) option" where
  "step e st t =
     (case e of
        Value \<Rightarrow> begin_value t st
      | FirstItem \<Rightarrow>
          (if t = TRBracket then
             (case st of FList items # st' \<Rightarrow> close_value (PList items) st' | _ \<Rightarrow> None)
           else begin_value t st)
      | FirstKey \<Rightarrow>
          (if t = TRBrace then
             (case st of FDict es # st' \<Rightarrow> close_value (PDict es) st' | _ \<Rightarrow> None)
           else read_key t st)
      | Key \<Rightarrow> read_key t st
      | Colon k \<Rightarrow>
          (if t = TColon then
             (case st of FDict es # st' \<Rightarrow> Some (Value, FPair es k # st') | _ \<Rightarrow> None)
           else None)
      | After \<Rightarrow>
          (case st of
             FList items # st' \<Rightarrow>
               if t = TComma then Some (Value, st)
               else if t = TRBracket then close_value (PList items) st'
               else None
           | FDict es # st' \<Rightarrow>
               if t = TComma then Some (Key, st)
               else if t = TRBrace then close_value (PDict es) st'
               else None
           | _ \<Rightarrow> None)
      | Done v \<Rightarrow> None)"

fun parse_tokens :: "expect \<Rightarrow> frame list \<Rightarrow> token list \<Rightarrow> pyval option" where
  "parse_tokens e st [] = (case (e, st) of (Done v, []) \<Rightarrow> Some v | _ \<Rightarrow> None)"
| "parse_tokens e st (t # ts) =
     (case step e st t of None \<Rightarrow> None | Some (e', st') \<Rightarrow> parse_tokens e' st' ts)"

definition json_loads :: "pystr \<Rightarrow> pyval option" where
  "json_loads s = (case tokenize s of None \<Rightarrow> None | Some ts \<Rightarrow> parse_tokens Value [] ts)"


section \<open>The client of the inference server\<close>

text \<open>
  The exceptions of the model are those that derive from \<open>Exception\<close>:
  \<open>requests.exceptions.Timeout\<close>, and any other one, which carries the text \<open>str(e)\<close>.
\<close>

datatype exn = Timeout | Error pystr

text \<open>
  The response object of an HTTP call: its status code, its body, and what its method
  \<open>json()\<close> does (the decoded body, or the text of the exception it raises).
\<close>

record http_response =
  status_code :: int
  resp_text :: pystr
  resp_json :: "pystr + pyval"

text \<open>
  The calls of \<open>requests.Session\<close>: \<open>get(url, timeout)\<close> and \<open>post(url, json, timeout)\<close>.
  The network answers a call, given the calls made before it, with a response or with an
  exception. The state of the client is the list of the calls it has made.
\<close>

datatype request =
    GET pystr int
  | POST pystr "(pystr \<times> pyval) list" int

type_synonym network = "request list \<Rightarrow> request \<Rightarrow> exn + http_response"

definition send :: "network \<Rightarrow> request \<Rightarrow> request list \<Rightarrow> (exn + http_response) \<times> request list" where
  "send net rq tr = (net tr rq, tr @ [rq])"

definition OLLAMA_BASE_URL :: pystr where
  "OLLAMA_BASE_URL = py ''http://localhost:11434''"

definition DEFAULT_MODEL :: pystr where
  "DEFAULT_MODEL = py ''llama3.2''"

text \<open>\<open>OllamaClient.is_available\<close>: any exception of the probe gives \<open>False\<close>.\<close>

definition OllamaClient_is_available :: "pystr \<Rightarrow> network \<Rightarrow> request list \<Rightarrow> bool \<times> request list" where
  "OllamaClient_is_available base_url net tr =
     (case send net (GET (base_url @ py ''/api/tags'') 5) tr of
        (Inr response, tr') \<Rightarrow> (status_code response = 200, tr')
      | (Inl e, tr') \<Rightarrow> (False, tr'))"

fun type_name :: "pyval \<Rightarrow> pystr" where
  "type_name PNone = py ''NoneType''"
| "type_name (PBool b) = py ''bool''"
| "type_name (PInt i) = py ''int''"
| "type_name (PFloat f) = py ''float''"
| "type_name (PStr s) = py ''str''"
| "type_name (PList xs) = py ''list''"
| "type_name (PDict d) = py ''dict''"

text \<open>
  \<open>response.json().get('response', ...)\<close>: a decoded body that is not a dict has no
  method \<open>get\<close>, which is an \<open>AttributeError\<close>.
\<close>

fun get_response_field :: "pyval \<Rightarrow> exn + pyval" where
  "get_response_field (PDict d) =
     Inr (dict_get d (py ''response'') (PStr (py ''Sorry, I could not generate a response.'')))"
| "get_response_field v =
     Inl (Error ([39] @ type_name v @ [39] @ py '' object has no attribute '' @ [39] @ py ''get'' @ [39]))"

text \<open>The body of the \<open>try\<close> of \<open>OllamaClient.generate_response\<close>, after the call.\<close>

definition generate_response_try :: "exn + http_response \<Rightarrow> exn + pyval" where
  "generate_response_try r =
     (case r of
        Inl e \<Rightarrow> Inl e
      | Inr response \<Rightarrow>
          if status_code response = 200 then
            (case resp_json response of
               Inl msg \<Rightarrow> Inl (Error msg)
             | Inr body \<Rightarrow> get_response_field body)
          else
            Inr (PStr (py ''Error: '' @ str_int (status_code response) @ py '' - ''
                       @ resp_text response)))"

text \<open>Its two \<open>except\<close> clauses.\<close>

fun generate_response_except :: "exn + pyval \<Rightarrow> exn + pyval" where
  "generate_response_except (Inl Timeout) =
     Inr (PStr (py ''Request timed out. The model might be processing a complex query.''))"
| "generate_response_except (Inl (Error msg)) =
     Inr (PStr (py ''Error connecting to Ollama: '' @ msg))"
| "generate_response_except (Inr v) = Inr v"

definition generate_payload :: "pystr \<Rightarrow> pystr \<Rightarrow> pystr option \<Rightarrow> (pystr \<times> pyval) list" where
  "generate_payload prompt model system_prompt =
     (let payload = [(py ''model'', PStr model), (py ''prompt'', PStr prompt),
                     (py ''stream'', PBool False)]
      in case system_prompt of
           None \<Rightarrow> payload
         | Some sp \<Rightarrow> if sp = [] then payload else dict_set payload (py ''system'') (PStr sp))"

definition OllamaClient_generate_response ::
  "pystr \<Rightarrow> network \<Rightarrow> pystr \<Rightarrow> pystr \<Rightarrow> pystr option \<Rightarrow> request list
     \<Rightarrow> (exn + pyval) \<times> request list" where
  "OllamaClient_generate_response base_url net prompt model system_prompt tr =
     (case send net (POST (base_url @ py ''/api/generate'')
                       (generate_payload prompt model system_prompt) 60) tr of
        (r, tr') \<Rightarrow> (generate_response_except (generate_response_try r), tr'))"

text \<open>
  The functions of \<open>app.py\<close> reach the server through the module's object
  \<open>ollama_client\<close>. They are modelled over any object with its two methods, acting on
  a state \<open>'w\<close>; \<open>ollama_client\<close> is the one the module creates.
\<close>

record 'w client =
  is_available :: "'w \<Rightarrow> bool \<times> 'w"
  generate_response :: "pystr \<Rightarrow> pystr \<Rightarrow> pystr option \<Rightarrow> 'w \<Rightarrow> (exn + pyval) \<times> 'w"

definition ollama_client :: "network \<Rightarrow> (request list) client" where
  "ollama_client net =
     \<lparr>is_available = OllamaClient_is_available OLLAMA_BASE_URL net,
      generate_response = OllamaClient_generate_response OLLAMA_BASE_URL net\<rparr>"


section \<open>Chat\<close>

text \<open>
  A prior turn is a dict with the keys \<open>message\<close> and \<open>response\<close>, whose values are
  strings; the context is \<open>None\<close> or a list of turns.
\<close>

type_synonym turn = "(pystr \<times> pystr) list"

definition render_turn :: "turn \<Rightarrow> pystr" where
  "render_turn msg =
     py ''User: '' @ dict_get msg (py ''message'') [] @ py ''\<newline>Assistant: ''
     @ dict_get msg (py ''response'') []"

definition context_prompt :: "turn list option \<Rightarrow> pystr" where
  "context_prompt context =
     (case context of
        None \<Rightarrow> []
      | Some msgs \<Rightarrow>
          if msgs = [] then []
          else join (py ''\<newline>'') (map render_turn (drop (length msgs - 5) msgs))
               @ py ''\<newline>\<newline>'')"

definition chat_system_prompt :: pystr where
  "chat_system_prompt = py (''You are a helpful AI teaching assistant. You provide clear, educational responses and help students learn various subjects. Be encouraging, patient, and provide examples when helpful. ''
     @ ''If asked about complex topics, break them down into understandable parts.'')"

definition full_prompt :: "pystr \<Rightarrow> turn list option \<Rightarrow> pystr" where
  "full_prompt message context =
     context_prompt context @ py ''User: '' @ message @ py ''\<newline>Assistant:''"

definition unavailable_message :: pystr where
  "unavailable_message =
     py ''Ollama is not available. Please make sure Ollama is running on your system.''"

definition generate_chat_response ::
  "'w client \<Rightarrow> pystr \<Rightarrow> turn list option \<Rightarrow> 'w \<Rightarrow> (exn + pyval) \<times> 'w" where
  "generate_chat_response c message context w =
     (case is_available c w of
        (available, w1) \<Rightarrow>
          if \<not> available then (Inr (PStr unavailable_message), w1)
          else generate_response c (full_prompt message context) DEFAULT_MODEL
                 (Some chat_system_prompt) w1)"

text \<open>
  \<open>send_message\<close> builds the context from the rows of its query, which come newest
  first (\<open>ORDER BY timestamp DESC LIMIT 5\<close>), and reverses it.
\<close>

definition turn_of :: "pystr \<times> pystr \<Rightarrow> turn" where
  "turn_of row = [(py ''message'', fst row), (py ''response'', snd row)]"

definition send_message_context :: "(pystr \<times> pystr) list \<Rightarrow> turn list" where
  "send_message_context rows = rev (map turn_of rows)"

definition send_message_ai_response ::
  "'w client \<Rightarrow> (pystr \<times> pystr) list \<Rightarrow> pystr \<Rightarrow> 'w \<Rightarrow> (exn + pyval) \<times> 'w" where
  "send_message_ai_response c rows message w =
     generate_chat_response c message (Some (send_message_context rows)) w"


section \<open>Quiz\<close>

text \<open>
  \<open>re.search(r'\[.*\]', response, re.DOTALL)\<close>: the leftmost match starts at the first
  \<open>[\<close> and, the star being greedy and the dot matching every character, ends at the last
  \<open>]\<close> after it; there is no match when no \<open>]\<close> follows the first \<open>[\<close>.
\<close>

definition re_search_brackets :: "pystr \<Rightarrow> pystr option" where
  "re_search_brackets s =
     (case dropWhile (\<lambda>c. c \<noteq> 91) s of
        [] \<Rightarrow> None
      | c # rest \<Rightarrow>
          if 93 \<in> set rest then Some (c # rev (dropWhile (\<lambda>c. c \<noteq> 93) (rev rest)))
          else None)"

text \<open>
  The \<open>try\<close> block of \<open>generate_quiz_questions\<close>: \<open>Some\<close> of the value it returns, or
  \<open>None\<close> when it falls through (no match, or an exception: the decoder's, or the
  \<open>TypeError\<close> of \<open>re.search\<close> on a response that is not a string).
\<close>

definition try_extract :: "pyval \<Rightarrow> pyval option" where
  "try_extract response =
     (case response of
        PStr txt \<Rightarrow>
          (case re_search_brackets txt of
             None \<Rightarrow> None
           | Some json_match \<Rightarrow> json_loads json_match)
      | _ \<Rightarrow> None)"

text \<open>The list returned when the server is not available.\<close>

definition sample_quiz :: "pystr \<Rightarrow> pyval" where
  "sample_quiz topic =
     PList [PDict
       [(py ''question'', PStr (py ''Sample question about '' @ topic @ py ''?'')),
        (py ''options'', PList [PStr (py ''Option A''), PStr (py ''Option B''),
                                PStr (py ''Option C''), PStr (py ''Option D'')]),
        (py ''correct'', PStr (py ''A''))]]"

text \<open>The list returned when the \<open>try\<close> block falls through.\<close>

definition fallback_quiz :: "pystr \<Rightarrow> pyval" where
  "fallback_quiz topic =
     PList [PDict
       [(py ''question'',
           PStr (py ''What is an important concept to understand about '' @ topic @ py ''?'')),
        (py ''options'', PList [PStr (py ''It requires foundational knowledge''),
                                PStr (py ''It can be learned quickly''),
                                PStr (py ''It has no practical applications''),
                                PStr (py ''It is only theoretical'')]),
        (py ''correct'', PStr (py ''A'')),
        (py ''explanation'',
           PStr (py ''Understanding foundational concepts is crucial for mastering any topic.''))]]"

definition extract_quiz :: "pystr \<Rightarrow> pyval \<Rightarrow> pyval" where
  "extract_quiz topic response =
     (case try_extract response of
        Some questions_data \<Rightarrow> questions_data
      | None \<Rightarrow> fallback_quiz topic)"

definition quiz_system_prompt :: "pystr \<Rightarrow> pystr \<Rightarrow> int \<Rightarrow> pystr" where
  \<open>quiz_system_prompt topic difficulty num_questions =
     py ''You are an expert quiz generator. Create '' @ str_int num_questions
     @ py '' multiple choice questions about '' @ topic @ py '' at '' @ difficulty
     @ py '' level. \<newline>\<newline>''
     @ py ''Format your response as a JSON array with this exact structure:\<newline>''
     @ py ''[\<newline>''
     @ py ''  {\<newline>''
     @ py ''    "question": "Question text here?",\<newline>''
     @ py ''    "options": ["Option A", "Option B", "Option C", "Option D"],\<newline>''
     @ py ''    "correct": "A",\<newline>''
     @ py ''    "explanation": "Brief explanation of why this is correct"\<newline>''
     @ py ''  }\<newline>''
     @ py '']\<newline>\<newline>''
     @ py ''Make sure:\<newline>''
     @ py ''- Questions are clear and educational\<newline>''
     @ py ''- Options are plausible but only one is correct\<newline>''
     @ py ''- Difficulty matches the requested level\<newline>''
     @ py ''- Include brief explanations\<newline>''
     @ py ''- Return valid JSON only''\<close>

definition quiz_prompt :: "pystr \<Rightarrow> pystr \<Rightarrow> int \<Rightarrow> pystr" where
  "quiz_prompt topic difficulty num_questions =
     py ''Generate '' @ str_int num_questions @ py '' '' @ difficulty
     @ py '' level multiple choice questions about: '' @ topic"

text \<open>
  The call of \<open>generate_response\<close> is outside the \<open>try\<close>: an exception of the client
  would leave \<open>generate_quiz_questions\<close>.
\<close>

definition generate_quiz_questions ::
  "'w client \<Rightarrow> pystr \<Rightarrow> pystr \<Rightarrow> int \<Rightarrow> 'w \<Rightarrow> (exn + pyval) \<times> 'w" where
  "generate_quiz_questions c topic difficulty num_questions w =
     (case is_available c w of
        (available, w1) \<Rightarrow>
          if \<not> available then (Inr (sample_quiz topic), w1)
          else
            (case generate_response c (quiz_prompt topic difficulty num_questions) DEFAULT_MODEL
                    (Some (quiz_system_prompt topic difficulty num_questions)) w1 of
               (Inl e, w2) \<Rightarrow> (Inl e, w2)
             | (Inr response, w2) \<Rightarrow> (Inr (extract_quiz topic response), w2)))"


section \<open>Study material\<close>

definition section_keys :: "pystr list" where
  "section_keys =
     [py ''introduction'', py ''key_concepts'', py ''examples'', py ''practice_questions'',
      py ''summary'']"

text \<open>The dict returned when the server is not available.\<close>

definition unavailable_sections :: "pystr \<Rightarrow> (pystr \<times> pyval) list" where
  "unavailable_sections topic =
     [(py ''introduction'', PStr (py ''This study material covers '' @ topic @ py ''.'')),
      (py ''key_concepts'', PStr (py ''Key concepts related to '' @ topic @ py ''.'')),
      (py ''examples'', PStr (py ''Practical examples of '' @ topic @ py ''.'')),
      (py ''practice_questions'', PStr (py ''Practice questions about '' @ topic @ py ''.'')),
      (py ''summary'', PStr (py ''Summary of '' @ topic @ py '' concepts.''))]"

definition pdf_system_prompt :: pystr where
  "pdf_system_prompt = py (''You are an expert educational content creator. Generate comprehensive study material that is well-structured, informative, and educational. ''
     @ ''Use clear language and provide practical examples.'')"

definition section_prompts :: "pystr \<Rightarrow> (pystr \<times> pystr) list" where
  \<open>section_prompts topic =
     [(py ''introduction'',
         py ''Write a comprehensive introduction to '' @ topic
         @ py ''. Explain what it is, why it's important, and what students will learn. Make it engaging and informative (200-300 words).''),
      (py ''key_concepts'',
         py ''List and explain the key concepts, principles, or components of '' @ topic
         @ py ''. Use bullet points or numbered lists for clarity. Include definitions and brief explanations (300-400 words).''),
      (py ''examples'',
         py ''Provide 3-4 practical, real-world examples that illustrate '' @ topic
         @ py ''. Make them relatable and easy to understand. Show how the concepts apply in practice (250-350 words).''),
      (py ''practice_questions'',
         py ''Create 5-7 practice questions about '' @ topic
         @ py '' with brief answers. Include a mix of question types: multiple choice, short answer, and application questions (200-300 words).''),
      (py ''summary'',
         py ''Write a concise summary of '' @ topic
         @ py '' that reinforces the main points. Include key takeaways and suggestions for further learning (150-200 words).'')]\<close>

definition section_placeholder :: "pystr \<Rightarrow> pystr" where
  "section_placeholder section =
     py ''Content for '' @ section @ py '' could not be generated at this time.''"

text \<open>
  The loop over \<open>section_prompts.items()\<close>: each pass calls the client inside its own
  \<open>try\<close> and stores the content, or the placeholder on any exception.
\<close>

fun generate_sections ::
  "'w client \<Rightarrow> (pystr \<times> pystr) list \<Rightarrow> (pystr \<times> pyval) list \<Rightarrow> 'w
     \<Rightarrow> (pystr \<times> pyval) list \<times> 'w" where
  "generate_sections c [] sections w = (sections, w)"
| "generate_sections c ((section, prompt) # rest) sections w =
     (case generate_response c prompt DEFAULT_MODEL (Some pdf_system_prompt) w of
        (Inr content, w') \<Rightarrow> generate_sections c rest (dict_set sections section content) w'
      | (Inl e, w') \<Rightarrow>
          generate_sections c rest
            (dict_set sections section (PStr (section_placeholder section))) w')"

definition generate_pdf_content ::
  "'w client \<Rightarrow> pystr \<Rightarrow> 'w \<Rightarrow> (pystr \<times> pyval) list \<times> 'w" where
  "generate_pdf_content c topic w =
     (case is_available c w of
        (available, w1) \<Rightarrow>
          if \<not> available then (unavailable_sections topic, w1)
          else generate_sections c (section_prompts topic) [] w1)"


text \<open>
  For the statement about the sections: the outcomes of the calls that the loop makes, one
  after the other, and what a section holds after its call.
\<close>

fun section_calls :: "'w client \<Rightarrow> (pystr \<times> pystr) list \<Rightarrow> 'w \<Rightarrow> (exn + pyval) list \<times> 'w" where
  "section_calls c [] w = ([], w)"
| "section_calls c ((section, prompt) # rest) w =
     (case generate_response c prompt DEFAULT_MODEL (Some pdf_system_prompt) w of
        (r, w') \<Rightarrow> (case section_calls c rest w' of (rs, w'') \<Rightarrow> (r # rs, w'')))"

definition section_content :: "pystr \<Rightarrow> exn + pyval \<Rightarrow> pystr \<times> pyval" where
  "section_content section r =
     (section, case r of Inr content \<Rightarrow> content | Inl e \<Rightarrow> PStr (section_placeholder section))"


section \<open>The shape of a quiz item\<close>

text \<open>
  The invariant that the specification gives for a quiz item: exactly four options and a
  label among A, B, C, D that indexes one of them; the validation it describes asks for a
  non-empty question as well.
\<close>

definition label_index :: "pystr \<Rightarrow> nat option" where
  "label_index l =
     (if l = py ''A'' then Some 0
      else if l = py ''B'' then Some 1
      else if l = py ''C'' then Some 2
      else if l = py ''D'' then Some 3
      else None)"

fun quiz_item_ok :: "pyval \<Rightarrow> bool" where
  "quiz_item_ok (PDict d) =
     (case (map_of d (py ''options''), map_of d (py ''correct'')) of
        (Some (PList opts), Some (PStr l)) \<Rightarrow>
          length opts = 4 \<and> (case label_index l of None \<Rightarrow> False | Some i \<Rightarrow> i < length opts)
      | _ \<Rightarrow> False)"
| "quiz_item_ok _ = False"

fun quiz_ok :: "pyval \<Rightarrow> bool" where
  "quiz_ok (PList items) = (items \<noteq> [] \<and> list_all quiz_item_ok items)"
| "quiz_ok _ = False"

fun valid_quiz_item :: "pyval \<Rightarrow> bool" where
  "valid_quiz_item (PDict d) =
     (quiz_item_ok (PDict d) \<and>
      (case map_of d (py ''question'') of Some (PStr q) \<Rightarrow> q \<noteq> [] | _ \<Rightarrow> False))"
| "valid_quiz_item _ = False"


section \<open>Servers for the examples\<close>

text \<open>A server that cannot be reached: every call raises a connection error.\<close>

definition unreachable :: network where
  "unreachable tr rq = Inl (Error (py ''Connection refused''))"

text \<open>
  A server that answers the probe with status 200 and every generation call with the
  response \<open>r\<close>.
\<close>

definition tags_response :: http_response where
  \<open>tags_response =
     \<lparr>status_code = 200, resp_text = py ''{"models":[]}'',
      resp_json = Inr (PDict [(py ''models'', PList [])])\<rparr>\<close>

definition serving :: "http_response \<Rightarrow> network" where
  "serving r tr rq = (case rq of GET url t \<Rightarrow> Inr tags_response | POST url payload t \<Rightarrow> Inr r)"

text \<open>A server whose generation calls time out.\<close>

definition timing_out :: network where
  "timing_out tr rq = (case rq of GET url t \<Rightarrow> Inr tags_response | POST url payload t \<Rightarrow> Inl Timeout)"

text \<open>Responses to a generation call.\<close>

definition empty_array_response :: http_response where
  \<open>empty_array_response =
     \<lparr>status_code = 200, resp_text = py ''{"response":"[]"}'',
      resp_json = Inr (PDict [(py ''response'', PStr (py ''[]''))])\<rparr>\<close>

definition done_response :: http_response where
  \<open>done_response =
     \<lparr>status_code = 200, resp_text = py ''{"done":true}'',
      resp_json = Inr (PDict [(py ''done'', PBool True)])\<rparr>\<close>

definition gravity_response :: http_response where
  \<open>gravity_response =
     \<lparr>status_code = 200, resp_text = py ''{"response":"Gravity attracts."}'',
      resp_json = Inr (PDict [(py ''response'', PStr (py ''Gravity attracts.''))])\<rparr>\<close>

definition error_response :: http_response where
  \<open>error_response =
     \<lparr>status_code = 500, resp_text = py ''internal error'',
      resp_json = Inl (py ''Expecting value: line 1 column 1 (char 0)'')\<rparr>\<close>

text \<open>A client whose generation call raises for the section \<open>examples\<close> only.\<close>

definition failing_examples :: "unit client" where
  "failing_examples =
     \<lparr>is_available = (\<lambda>w. (True, w)),
      generate_response = (\<lambda>prompt model system_prompt w.
        if take 7 prompt = py ''Provide'' then (Inl Timeout, w) else (Inr (PStr prompt), w))\<rparr>"


section \<open>JSON texts\<close>

text \<open>
  For the statement of the round trip through the decoder: the texts that denote a value.
\<close>









text \<open>
  A quiz item as the specification gives it (a question, options, the label of the correct
  option, an optional explanation) and the dict that stands for it, with the keys of the
  format that the quiz prompt asks for.
\<close>

record quiz_entry =
  question :: pystr
  options :: "pystr list"
  correct :: pystr
  explanation :: "pystr option"


text \<open>
  The tokens that have a text of their own, whatever follows them.
\<close>

definition lexable :: "token \<Rightarrow> bool" where
  "lexable t = (case t of TScalar (PInt i) \<Rightarrow> False | TScalar (PFloat f) \<Rightarrow> False
                | TScalar (PList xs) \<Rightarrow> False | TScalar (PDict d) \<Rightarrow> False | _ \<Rightarrow> True)"




section \<open>Properties\<close>

lemma dict_set_fresh: "k \<notin> fst ` set d \<Longrightarrow> dict_set d k v = d @ [(k, v)]"
  by (induction d) auto

subsection \<open>The client\<close>

lemma client_simps [simp]:
  "is_available (ollama_client net) = OllamaClient_is_available OLLAMA_BASE_URL net"
  "generate_response (ollama_client net) = OllamaClient_generate_response OLLAMA_BASE_URL net"
  by (simp_all add: ollama_client_def)

lemma generate_response_except_returns: "\<exists>v. generate_response_except r = Inr v"
  by (cases r rule: generate_response_except.cases) simp_all

lemma OllamaClient_generate_response_returns:
  "\<exists>v. fst (OllamaClient_generate_response base_url net prompt model system_prompt tr) = Inr v"
  using generate_response_except_returns
  by (simp add: OllamaClient_generate_response_def send_def)

text \<open>
  C7. \<open>OllamaClient.generate_response\<close> never raises: whatever the network does with the
  call, it returns a value. A response with status 200 whose decoded body is a dict holding
  the key \<open>response\<close> gives the value under that key; a response with another status gives
  the text \<open>Error: <status> - <body>\<close>; a timeout gives the fixed timeout message; any other
  exception gives \<open>Error connecting to Ollama: \<close> followed by its text.
\<close>

theorem generate_response_outcomes:
  fixes base_url net prompt model system_prompt tr
  defines "rq \<equiv> POST (base_url @ py ''/api/generate'') (generate_payload prompt model system_prompt) 60"
  defines "r \<equiv> fst (OllamaClient_generate_response base_url net prompt model system_prompt tr)"
  shows "(\<exists>v. r = Inr v) \<and>
     (\<forall>response d v. net tr rq = Inr response \<and> status_code response = 200
         \<and> resp_json response = Inr (PDict d) \<and> map_of d (py ''response'') = Some v
        \<longrightarrow> r = Inr v) \<and>
     (\<forall>response. net tr rq = Inr response \<and> status_code response \<noteq> 200
        \<longrightarrow> r = Inr (PStr (py ''Error: '' @ str_int (status_code response) @ py '' - '' @ resp_text response))) \<and>
     (net tr rq = Inl Timeout
        \<longrightarrow> r = Inr (PStr (py ''Request timed out. The model might be processing a complex query.''))) \<and>
     (\<forall>msg. net tr rq = Inl (Error msg)
        \<longrightarrow> r = Inr (PStr (py ''Error connecting to Ollama: '' @ msg)))"
  unfolding r_def rq_def
  using generate_response_except_returns
  by (auto simp: OllamaClient_generate_response_def send_def generate_response_try_def dict_get_def)

text \<open>
  The four outcomes of C7 on a server that answers, a server that answers 500, a server that
  times out and a server that cannot be reached.
\<close>

theorem generate_response_outcomes_witness:
  "fst (OllamaClient_generate_response OLLAMA_BASE_URL (serving gravity_response) (py ''Hello'')
          DEFAULT_MODEL None []) = Inr (PStr (py ''Gravity attracts.'')) \<and>
   fst (OllamaClient_generate_response OLLAMA_BASE_URL (serving error_response) (py ''Hello'')
          DEFAULT_MODEL None []) = Inr (PStr (py ''Error: 500 - internal error'')) \<and>
   fst (OllamaClient_generate_response OLLAMA_BASE_URL timing_out (py ''Hello'')
          DEFAULT_MODEL None []) =
     Inr (PStr (py ''Request timed out. The model might be processing a complex query.'')) \<and>
   fst (OllamaClient_generate_response OLLAMA_BASE_URL unreachable (py ''Hello'')
          DEFAULT_MODEL None []) =
     Inr (PStr (py ''Error connecting to Ollama: Connection refused''))"
proof -
  have five_hundred: "str_int 500 = py ''500''"
    by (simp add: str_int_def str_nat.simps py_def)
  show ?thesis
    using
      generate_response_outcomes [of OLLAMA_BASE_URL "serving gravity_response" "py ''Hello''"
        DEFAULT_MODEL None "[]"]
      generate_response_outcomes [of OLLAMA_BASE_URL "serving error_response" "py ''Hello''"
        DEFAULT_MODEL None "[]"]
      generate_response_outcomes [of OLLAMA_BASE_URL timing_out "py ''Hello''"
        DEFAULT_MODEL None "[]"]
      generate_response_outcomes [of OLLAMA_BASE_URL unreachable "py ''Hello''"
        DEFAULT_MODEL None "[]"]
    by (simp add: serving_def timing_out_def unreachable_def gravity_response_def
          error_response_def five_hundred py_def)
qed

text \<open>
  C10. When the server answers a generation call with status 200 and a body that decodes to
  a dict without the key \<open>response\<close>, \<open>OllamaClient.generate_response\<close> returns the fixed
  text \<open>Sorry, I could not generate a response.\<close>
\<close>

theorem missing_response_key:
  assumes "net tr (POST (base_url @ py ''/api/generate'') (generate_payload prompt model system_prompt) 60) = Inr response"
    and "status_code response = 200"
    and "resp_json response = Inr (PDict d)"
    and "map_of d (py ''response'') = None"
  shows "fst (OllamaClient_generate_response base_url net prompt model system_prompt tr)
           = Inr (PStr (py ''Sorry, I could not generate a response.''))"
  using assms
  by (simp add: OllamaClient_generate_response_def send_def generate_response_try_def dict_get_def)

text \<open>
  C10 on a server whose body is \<open>{"done":true}\<close>.
\<close>

theorem missing_response_key_witness:
  "fst (OllamaClient_generate_response OLLAMA_BASE_URL (serving done_response) (py ''Hello'')
          DEFAULT_MODEL None []) = Inr (PStr (py ''Sorry, I could not generate a response.''))"
  using missing_response_key [of "serving done_response" "[]" OLLAMA_BASE_URL "py ''Hello''"
      DEFAULT_MODEL None done_response "[(py ''done'', PBool True)]"]
  by (simp add: serving_def done_response_def py_def)

subsection \<open>Chat\<close>

text \<open>
  C6. When the probe says that the server is not available, \<open>generate_chat_response\<close>
  returns the fixed unavailability message for every message and every context, and the state
  it leaves is the one the probe left: the result is the same whatever the client's
  \<open>generate_response\<close> is, so that method is not called.
\<close>

theorem chat_unavailable:
  assumes "\<not> fst (is_available c w)"
  shows "generate_chat_response (c\<lparr>generate_response := g\<rparr>) message context w
           = (Inr (PStr unavailable_message), snd (is_available c w))"
  using assms by (cases "is_available c w") (simp add: generate_chat_response_def)

text \<open>
  C6 on a server that cannot be reached, for the question \<open>What is gravity?\<close> with an
  empty context: the only call made is the probe.
\<close>

theorem chat_unavailable_witness:
  "\<not> fst (is_available (ollama_client unreachable) []) \<and>
   generate_chat_response (ollama_client unreachable) (py ''What is gravity?'') (Some []) [] =
     (Inr (PStr unavailable_message), [GET (py ''http://localhost:11434/api/tags'') 5])"
proof -
  have down: "\<not> fst (is_available (ollama_client unreachable) [])"
    by (simp add: OllamaClient_is_available_def send_def unreachable_def)
  have same: "(ollama_client unreachable)
                \<lparr>generate_response := OllamaClient_generate_response OLLAMA_BASE_URL unreachable\<rparr>
              = ollama_client unreachable"
    by (simp add: ollama_client_def)
  show ?thesis
    using down
      chat_unavailable [OF down, of "OllamaClient_generate_response OLLAMA_BASE_URL unreachable"
        "py ''What is gravity?''" "Some []"]
    unfolding same
    by (simp add: OllamaClient_is_available_def send_def unreachable_def OLLAMA_BASE_URL_def py_def)
qed

lemma render_turn_of:
  "render_turn (turn_of t) = py ''User: '' @ fst t @ py ''\<newline>Assistant: '' @ snd t"
  by (simp add: render_turn_def turn_of_def dict_get_def py_def)

text \<open>
  C9. Given five or more prior turns in chronological order, the prompt of
  \<open>generate_chat_response\<close> holds the last five of them only, oldest first, each rendered as
  \<open>User: <message>\<close>, a newline and \<open>Assistant: <response>\<close>, joined by newlines and
  followed by an empty line, before the new message.
\<close>

theorem context_last_five:
  assumes "5 \<le> length ts"
  shows "full_prompt message (Some (map turn_of ts)) =
           join (py ''\<newline>'')
             (map (\<lambda>t. py ''User: '' @ fst t @ py ''\<newline>Assistant: '' @ snd t)
                (drop (length ts - 5) ts))
           @ py ''\<newline>\<newline>'' @ py ''User: '' @ message @ py ''\<newline>Assistant:''
         \<and> length (drop (length ts - 5) ts) = 5"
proof -
  have "ts \<noteq> []" using assms by auto
  then show ?thesis
    using assms
    by (simp add: full_prompt_def context_prompt_def drop_map render_turn_of comp_def)
qed

text \<open>
  C9 on seven turns: the prompt holds the turns three to seven.
\<close>

theorem context_last_five_witness:
  "full_prompt (py ''q8'')
     (Some (map turn_of [(py ''q1'', py ''a1''), (py ''q2'', py ''a2''), (py ''q3'', py ''a3''),
                         (py ''q4'', py ''a4''), (py ''q5'', py ''a5''), (py ''q6'', py ''a6''),
                         (py ''q7'', py ''a7'')])) =
   py (''User: q3\<newline>Assistant: a3\<newline>User: q4\<newline>Assistant: a4\<newline>''
       @ ''User: q5\<newline>Assistant: a5\<newline>User: q6\<newline>Assistant: a6\<newline>''
       @ ''User: q7\<newline>Assistant: a7\<newline>\<newline>User: q8\<newline>Assistant:'')"
  using context_last_five [of "[(py ''q1'', py ''a1''), (py ''q2'', py ''a2''), (py ''q3'', py ''a3''),
                         (py ''q4'', py ''a4''), (py ''q5'', py ''a5''), (py ''q6'', py ''a6''),
                         (py ''q7'', py ''a7'')]" "py ''q8''"]
  by (simp add: py_def)

text \<open>
  C3 as stated fails: \<open>generate_chat_response\<close> does not reorder the turns. Given the
  newer turn before the older one, it renders the newer one first.
\<close>

theorem reversed_context_counterexample:
  "full_prompt (py ''next'') (Some [turn_of (py ''second'', py ''b''), turn_of (py ''first'', py ''a'')]) =
   py ''User: second\<newline>Assistant: b\<newline>User: first\<newline>Assistant: a\<newline>\<newline>User: next\<newline>Assistant:''"
  by (simp add: full_prompt_def context_prompt_def render_turn_of py_def)

text \<open>
  C3, amended. \<open>generate_chat_response\<close> renders the turns of its context in the order in
  which they are given. The chronological order is restored by its caller: \<open>send_message\<close>
  reverses the rows of its query, which come newest first, before the call, so that the prompt
  it has generated holds the five newest rows, oldest first.
\<close>

theorem send_message_order:
  "(msgs \<noteq> [] \<longrightarrow>
      full_prompt message (Some msgs) =
        join (py ''\<newline>'') (map render_turn (drop (length msgs - 5) msgs))
        @ py ''\<newline>\<newline>'' @ py ''User: '' @ message @ py ''\<newline>Assistant:'') \<and>
   (rows \<noteq> [] \<and> fst (is_available c w) \<longrightarrow>
      send_message_ai_response c rows message w =
        generate_response c
          (join (py ''\<newline>'')
             (map (\<lambda>row. py ''User: '' @ fst row @ py ''\<newline>Assistant: '' @ snd row)
                (rev (take 5 rows)))
           @ py ''\<newline>\<newline>'' @ py ''User: '' @ message @ py ''\<newline>Assistant:'')
          DEFAULT_MODEL (Some chat_system_prompt) (snd (is_available c w)))"
proof -
  have "drop (length rows - 5) (rev (map turn_of rows)) = rev (take 5 (map turn_of rows))"
    using rev_take [of 5 "map turn_of rows"] by simp
  then have "map render_turn (drop (length (send_message_context rows) - 5) (send_message_context rows))
          = map (\<lambda>row. py ''User: '' @ fst row @ py ''\<newline>Assistant: '' @ snd row) (rev (take 5 rows))"
    by (simp add: send_message_context_def take_map rev_map render_turn_of comp_def)
  then show ?thesis
    by (cases "is_available c w")
       (auto simp: full_prompt_def context_prompt_def send_message_ai_response_def
          generate_chat_response_def send_message_context_def)
qed

text \<open>
  C3, amended, on two rows, the newer one first: the prompt posted to the server holds
  the older one first.
\<close>

theorem send_message_order_witness:
  "send_message_ai_response (ollama_client (serving gravity_response))
     [(py ''second'', py ''b''), (py ''first'', py ''a'')] (py ''next'') [] =
   (Inr (PStr (py ''Gravity attracts.'')),
    [GET (OLLAMA_BASE_URL @ py ''/api/tags'') 5,
     POST (OLLAMA_BASE_URL @ py ''/api/generate'')
       (generate_payload
          (py ''User: first\<newline>Assistant: a\<newline>User: second\<newline>Assistant: b\<newline>\<newline>User: next\<newline>Assistant:'')
          DEFAULT_MODEL (Some chat_system_prompt)) 60])"
  using send_message_order [of "[]" "py ''next''" "[(py ''second'', py ''b''), (py ''first'', py ''a'')]"
      "ollama_client (serving gravity_response)" "[]"]
  by (simp add: OllamaClient_is_available_def OllamaClient_generate_response_def send_def
        serving_def tags_response_def gravity_response_def generate_response_try_def
        dict_get_def py_def)

subsection \<open>Quiz\<close>

text \<open>
  C4 as stated fails: the item returned when the server is not available has no key
  \<open>explanation\<close>.
\<close>

theorem sample_quiz_counterexample:
  "fst (generate_quiz_questions (ollama_client unreachable) (py ''Gravity'') (py ''beginner'') 3 []) =
     Inr (PList [PDict
        [(py ''question'', PStr (py ''Sample question about Gravity?'')),
         (py ''options'', PList [PStr (py ''Option A''), PStr (py ''Option B''),
                                 PStr (py ''Option C''), PStr (py ''Option D'')]),
         (py ''correct'', PStr (py ''A''))]])
   \<and> map_of [(py ''question'', PStr (py ''Sample question about Gravity?'')),
         (py ''options'', PList [PStr (py ''Option A''), PStr (py ''Option B''),
                                 PStr (py ''Option C''), PStr (py ''Option D'')]),
         (py ''correct'', PStr (py ''A''))] (py ''explanation'') = None"
  by (simp add: generate_quiz_questions_def OllamaClient_is_available_def send_def
        unreachable_def sample_quiz_def py_def)

text \<open>
  C4, amended. When the probe says that the server is not available,
  \<open>generate_quiz_questions\<close> returns a list of one item, with the keys \<open>question\<close> (the text
  \<open>Sample question about <topic>?\<close>), \<open>options\<close> (\<open>Option A\<close> to \<open>Option D\<close>) and
  \<open>correct\<close> (the label A) and no other key, and the state it leaves is the one the probe
  left: the result is the same whatever the client's \<open>generate_response\<close> is, so that
  method is not called.
\<close>

theorem quiz_unavailable:
  assumes "\<not> fst (is_available c w)"
  shows "generate_quiz_questions (c\<lparr>generate_response := g\<rparr>) topic difficulty n w =
           (Inr (PList [PDict
              [(py ''question'', PStr (py ''Sample question about '' @ topic @ py ''?'')),
               (py ''options'', PList [PStr (py ''Option A''), PStr (py ''Option B''),
                                       PStr (py ''Option C''), PStr (py ''Option D'')]),
               (py ''correct'', PStr (py ''A''))]]),
            snd (is_available c w))"
  using assms by (cases "is_available c w") (simp add: generate_quiz_questions_def sample_quiz_def)

text \<open>
  C4, amended, on a server that cannot be reached: the only call made is the probe.
\<close>

theorem quiz_unavailable_witness:
  "\<not> fst (is_available (ollama_client unreachable) []) \<and>
   generate_quiz_questions (ollama_client unreachable) (py ''Photosynthesis'') (py ''intermediate'') 5 [] =
     (Inr (PList [PDict
        [(py ''question'', PStr (py ''Sample question about Photosynthesis?'')),
         (py ''options'', PList [PStr (py ''Option A''), PStr (py ''Option B''),
                                 PStr (py ''Option C''), PStr (py ''Option D'')]),
         (py ''correct'', PStr (py ''A''))]]),
      [GET (py ''http://localhost:11434/api/tags'') 5])"
proof -
  have down: "\<not> fst (is_available (ollama_client unreachable) [])"
    by (simp add: OllamaClient_is_available_def send_def unreachable_def)
  have same: "(ollama_client unreachable)
                \<lparr>generate_response := OllamaClient_generate_response OLLAMA_BASE_URL unreachable\<rparr>
              = ollama_client unreachable"
    by (simp add: ollama_client_def)
  show ?thesis
    using down
      quiz_unavailable [OF down, of "OllamaClient_generate_response OLLAMA_BASE_URL unreachable"
        "py ''Photosynthesis''" "py ''intermediate''" 5]
    unfolding same
    by (simp add: OllamaClient_is_available_def send_def unreachable_def OLLAMA_BASE_URL_def py_def)
qed








lemma scanstring_short:
  "unescape e = Some x \<Longrightarrow> e \<noteq> 117 \<Longrightarrow> scanstring (92 # e # rest) = emit x 2 (scanstring rest)"
  by simp













lemma lexable_simps [simp]:
  "lexable TLBracket" "lexable TRBracket" "lexable TLBrace" "lexable TRBrace"
  "lexable TColon" "lexable TComma" "lexable (TScalar (PStr s))"
  "lexable (TScalar PNone)" "lexable (TScalar (PBool b))"
  by (simp_all add: lexable_def)
























text \<open>
  C2 as stated fails: an item with two options and the label E does not pass the
  validation that the claim describes, and it is returned, not the fallback list.
\<close>

theorem invalid_item_counterexample:
  \<open>extract_quiz (py ''Recursion'')
     (PStr (py ''Here: [{"question":"Q?","options":["yes","no"],"correct":"E"}]'')) =
     PList [PDict
       [(py ''question'', PStr (py ''Q?'')),
        (py ''options'', PList [PStr (py ''yes''), PStr (py ''no'')]),
        (py ''correct'', PStr (py ''E''))]]
   \<and> \<not> valid_quiz_item (PDict
       [(py ''question'', PStr (py ''Q?'')),
        (py ''options'', PList [PStr (py ''yes''), PStr (py ''no'')]),
        (py ''correct'', PStr (py ''E''))])
   \<and> extract_quiz (py ''Recursion'')
     (PStr (py ''Here: [{"question":"Q?","options":["yes","no"],"correct":"E"}]'')) \<noteq>
     fallback_quiz (py ''Recursion'')\<close>
  by (simp add: extract_quiz_def try_extract_def re_search_brackets_def json_loads_def push_def
        step_def read_key_def emit_def is_ws_def fallback_quiz_def label_index_def py_def)

text \<open>
  C2, amended. The parsing step of \<open>generate_quiz_questions\<close> validates nothing: when the
  part of the text from the first \<open>[\<close> to the last \<open>]\<close> decodes as JSON, the decoded value
  is returned as it is; the fallback list is returned when there is no such part or when it
  does not decode.
\<close>

theorem extract_without_validation:
  "(re_search_brackets txt = Some m \<and> json_loads m = Some v \<longrightarrow>
      extract_quiz topic (PStr txt) = v) \<and>
   (re_search_brackets txt = None \<or> (re_search_brackets txt = Some m \<and> json_loads m = None) \<longrightarrow>
      extract_quiz topic (PStr txt) = fallback_quiz topic)"
  by (auto simp: extract_quiz_def try_extract_def)

text \<open>
  C2, amended: an item with an empty question and nothing else is returned as decoded; a
  text without brackets gives the fallback list.
\<close>

theorem extract_without_validation_witness:
  \<open>extract_quiz (py ''Recursion'') (PStr (py ''[{"question":""}]'')) =
     PList [PDict [(py ''question'', PStr [])]]
   \<and> \<not> valid_quiz_item (PDict [(py ''question'', PStr [])])
   \<and> extract_quiz (py ''Recursion'') (PStr (py ''no list here'')) = fallback_quiz (py ''Recursion'')\<close>
  using extract_without_validation [of \<open>py ''[{"question":""}]''\<close> \<open>py ''[{"question":""}]''\<close>
      \<open>PList [PDict [(py ''question'', PStr [])]]\<close> \<open>py ''Recursion''\<close>]
    extract_without_validation [of \<open>py ''no list here''\<close> \<open>[]\<close> PNone \<open>py ''Recursion''\<close>]
  by (simp add: re_search_brackets_def json_loads_def push_def step_def read_key_def emit_def
        is_ws_def py_def)

lemma sample_quiz_ok: "quiz_ok (sample_quiz topic)"
  by (simp add: sample_quiz_def label_index_def py_def)

lemma fallback_quiz_ok: "quiz_ok (fallback_quiz topic)"
  by (simp add: fallback_quiz_def label_index_def py_def)

text \<open>
  C1 as stated fails: when the generated text is \<open>[]\<close>, \<open>generate_quiz_questions\<close>
  returns the empty list.
\<close>

theorem empty_array_counterexample:
  "fst (generate_quiz_questions (ollama_client (serving empty_array_response))
          (py ''Photosynthesis'') (py ''intermediate'') 5 []) = Inr (PList [])
   \<and> \<not> quiz_ok (PList [])"
  by (simp add: generate_quiz_questions_def OllamaClient_is_available_def
        OllamaClient_generate_response_def send_def serving_def tags_response_def
        empty_array_response_def generate_response_try_def dict_get_def extract_quiz_def
        try_extract_def re_search_brackets_def json_loads_def push_def step_def is_ws_def
        py_def)

text \<open>
  C1, amended. On the module's client, \<open>generate_quiz_questions\<close> returns a value for
  every topic, difficulty, count and network. When the server is not available, the value is
  the sample list; when the generated text has no part from a \<open>[\<close> to a \<open>]\<close> that decodes
  as JSON, it is the fallback list; both are non-empty lists whose items have exactly four
  options and a label among A to D that indexes one of them. When that part decodes, the value
  is the decoded one, unchanged and unchecked.
\<close>

theorem quiz_result:
  fixes net topic difficulty n tr
  defines "c \<equiv> ollama_client net"
  defines "r \<equiv> fst (generate_response c (quiz_prompt topic difficulty n) DEFAULT_MODEL
                     (Some (quiz_system_prompt topic difficulty n)) (snd (is_available c tr)))"
  shows "\<exists>response. r = Inr response \<and>
           fst (generate_quiz_questions c topic difficulty n tr) =
             Inr (if \<not> fst (is_available c tr) then sample_quiz topic
                  else case try_extract response of
                         Some questions_data \<Rightarrow> questions_data
                       | None \<Rightarrow> fallback_quiz topic)
           \<and> quiz_ok (sample_quiz topic) \<and> quiz_ok (fallback_quiz topic)"
proof -
  have "\<exists>response. r = Inr response"
    unfolding r_def c_def by (simp add: OllamaClient_generate_response_returns)
  then obtain response where "r = Inr response" ..
  then show ?thesis
    unfolding r_def c_def
    by (cases "is_available (ollama_client net) tr")
       (auto simp: generate_quiz_questions_def extract_quiz_def sample_quiz_ok fallback_quiz_ok
          split: prod.splits sum.splits)
qed

text \<open>
  C1, amended, on a server that answers the generation call with status 500: the
  fallback list about the topic.
\<close>

theorem quiz_result_witness:
  "fst (generate_quiz_questions (ollama_client (serving error_response)) (py ''Photosynthesis'')
          (py ''intermediate'') 5 []) = Inr (fallback_quiz (py ''Photosynthesis''))
   \<and> quiz_ok (fallback_quiz (py ''Photosynthesis''))"
proof -
  have five_hundred: "str_int 500 = py ''500''"
    by (simp add: str_int_def str_nat.simps py_def)
  show ?thesis
    using quiz_result [of "serving error_response" "py ''Photosynthesis''" "py ''intermediate''" 5 "[]"]
    by (auto simp: OllamaClient_is_available_def OllamaClient_generate_response_def send_def
          serving_def tags_response_def error_response_def generate_response_try_def
          five_hundred try_extract_def re_search_brackets_def py_def)
qed

subsection \<open>Study material\<close>

lemma section_calls_length: "length (fst (section_calls c ps w)) = length ps"
  by (induction c ps w rule: section_calls.induct) (auto split: prod.splits)

lemma generate_sections_calls:
  assumes "distinct (map fst ps)" and "fst ` set ps \<inter> fst ` set acc = {}"
  shows "generate_sections c ps acc w =
           (acc @ map2 section_content (map fst ps) (fst (section_calls c ps w)),
            snd (section_calls c ps w))"
  using assms
proof (induction ps arbitrary: acc w)
  case Nil
  then show ?case by simp
next
  case (Cons p rest)
  obtain k prompt where p: "p = (k, prompt)"
    by (cases p)
  obtain r w' where call: "generate_response c prompt DEFAULT_MODEL (Some pdf_system_prompt) w = (r, w')"
    by (cases "generate_response c prompt DEFAULT_MODEL (Some pdf_system_prompt) w")
  obtain rs w'' where calls: "section_calls c rest w' = (rs, w'')"
    by (cases "section_calls c rest w'")
  have fresh: "k \<notin> fst ` set acc"
    using Cons.prems(2) p by auto
  have rest_distinct: "distinct (map fst rest)"
    using Cons.prems(1) by simp
  have disjoint: "fst ` set rest \<inter> fst ` set (acc @ [section_content k r]) = {}"
    using Cons.prems p by (auto simp: section_content_def)
  have step: "generate_sections c (p # rest) acc w =
                generate_sections c rest (acc @ [section_content k r]) w'"
    using p call fresh by (cases r) (simp_all add: dict_set_fresh section_content_def)
  show ?case
    unfolding step Cons.IH[OF rest_distinct disjoint]
    using p call calls by simp
qed

lemma section_prompts_keys: "map fst (section_prompts topic) = section_keys"
  by (simp add: section_prompts_def section_keys_def)

lemma section_prompts_length: "length (section_prompts topic) = length section_keys"
  by (metis length_map section_prompts_keys)

lemma section_keys_distinct: "distinct section_keys"
  by (simp add: section_keys_def py_def)

lemma unavailable_sections_keys: "map fst (unavailable_sections topic) = section_keys"
  by (simp add: unavailable_sections_def section_keys_def)

lemma map2_section_content_keys:
  "length ks = length rs \<Longrightarrow> map fst (map2 section_content ks rs) = ks"
  by (induction ks rs rule: list_induct2) (simp_all add: section_content_def)

text \<open>
  C5. For every topic, every client and every state, the dict that \<open>generate_pdf_content\<close>
  returns has exactly the keys \<open>introduction\<close>, \<open>key_concepts\<close>, \<open>examples\<close>,
  \<open>practice_questions\<close>, \<open>summary\<close>, in this order. When the server is available, each
  section holds what its own call returned, or its placeholder when its own call raised: an
  exception in one call changes that section only, and all five calls are made.
\<close>

theorem pdf_sections:
  "map fst (fst (generate_pdf_content c topic w)) = section_keys \<and>
   (fst (is_available c w) \<longrightarrow>
      fst (generate_pdf_content c topic w) =
        map2 section_content section_keys
          (fst (section_calls c (section_prompts topic) (snd (is_available c w)))))"
proof (cases "is_available c w")
  case (Pair available w1)
  have distinct: "distinct (map fst (section_prompts topic))"
    by (simp add: section_prompts_keys section_keys_distinct)
  have gen: "generate_sections c (section_prompts topic) [] w1 =
               (map2 section_content section_keys (fst (section_calls c (section_prompts topic) w1)),
                snd (section_calls c (section_prompts topic) w1))"
    using generate_sections_calls[OF distinct, of "[]" c w1] by (simp add: section_prompts_keys)
  have len: "length section_keys = length (fst (section_calls c (section_prompts topic) w1))"
    by (simp add: section_calls_length section_prompts_length)
  show ?thesis
    using Pair gen map2_section_content_keys[OF len]
    by (simp add: generate_pdf_content_def unavailable_sections_keys)
qed

text \<open>
  C5 on a client whose call for the section \<open>examples\<close> raises: five keys, the
  placeholder under \<open>examples\<close>, the generated text under \<open>summary\<close>.
\<close>

theorem pdf_sections_witness:
  "map fst (fst (generate_pdf_content failing_examples (py ''Recursion'') ())) =
     [py ''introduction'', py ''key_concepts'', py ''examples'', py ''practice_questions'',
      py ''summary''] \<and>
   map_of (fst (generate_pdf_content failing_examples (py ''Recursion'') ())) (py ''examples'') =
     Some (PStr (py ''Content for examples could not be generated at this time.'')) \<and>
   map_of (fst (generate_pdf_content failing_examples (py ''Recursion'') ())) (py ''summary'') =
     Some (PStr (py ''Write a concise summary of Recursion that reinforces the main points. Include key takeaways and suggestions for further learning (150-200 words).''))"
  using pdf_sections [of failing_examples "py ''Recursion''" "()"]
  by (simp add: failing_examples_def section_keys_def section_prompts_def section_content_def
        section_placeholder_def py_def)

end
